theory Spec2Isabelle
  imports Complex_Main
begin

section \<open>Data model (db.py)\<close>

text \<open>
  A \<^verbatim>\<open>datetime\<close> is a point on the local clock, counted in microseconds (the resolution
  of Python's \<^verbatim>\<open>datetime\<close>); \<^verbatim>\<open>timedelta(days=d)\<close> is \<open>d\<close> days in the same unit.
  A \<^verbatim>\<open>str\<close> that the code only stores, compares and returns is a \<open>string\<close>; so is a
  \<^verbatim>\<open>bytes\<close> value. The password is the one \<^verbatim>\<open>str\<close> that the code encodes: it is kept
  as the list of its code points, see \<open>encode_utf8\<close> below. The \<^verbatim>\<open>Float\<close> column
  \<^verbatim>\<open>overall_rating\<close> is only carried through; no arithmetic on it is modelled.
\<close>

type_synonym datetime = int

definition timedelta_days :: "int \<Rightarrow> int" where
  "timedelta_days d = d * 86400000000"

type_synonym py_float = rat

text \<open>What \<^verbatim>\<open>json.dumps\<close> is given: the value, not its text. \<open>JStrOfDatetime d\<close> is
  the string \<^verbatim>\<open>str(d)\<close> of a datetime \<open>d\<close>.\<close>

datatype json =
    JNull
  | JBool bool
  | JInt int
  | JFloat py_float
  | JStr string
  | JStrOfDatetime datetime
  | JList "json list"
  | JDict "(string \<times> json) list"

text \<open>Exceptions that leave the code unhandled.\<close>

datatype py_error = ValueError | IntegrityError | UnicodeEncodeError | AttributeError

record review =
  review_id :: nat
  rating :: int
  review_text :: string
  review_date :: datetime
  reviewee_id :: nat

record category =
  category_id :: nat
  description :: string

text \<open>The \<^verbatim>\<open>User\<close> model. The relationships \<^verbatim>\<open>reviews\<close>, \<^verbatim>\<open>categories_h\<close> and
  \<^verbatim>\<open>categories_o\<close> are held as the lists the ORM loads for them.\<close>

record user =
  user_id :: nat
  name :: string
  username :: string
  bio :: "string option"
  contact :: string
  overall_rating :: "py_float option"
  reviews :: "review list"
  host :: bool
  owner :: bool
  categories_h :: "category list"
  categories_o :: "category list"
  available :: bool
  email :: string
  password_digest :: string
  session_token :: string
  session_expiration :: datetime
  update_token :: string

definition json_opt :: "('a \<Rightarrow> json) \<Rightarrow> 'a option \<Rightarrow> json" where
  "json_opt f x = (case x of None \<Rightarrow> JNull | Some v \<Rightarrow> f v)"

definition Review_serialize :: "review \<Rightarrow> json" where
  "Review_serialize r = JDict
     [(''id'', JInt (int (review_id r))),
      (''rating'', JInt (rating r)),
      (''text'', JStr (review_text r)),
      (''date'', JStrOfDatetime (review_date r)),
      (''reviewee_id'', JInt (int (reviewee_id r)))]"

definition serialize :: "user \<Rightarrow> json" where
  "serialize u = JDict
     [(''id'', JInt (int (user_id u))),
      (''name'', JStr (name u)),
      (''username'', JStr (username u)),
      (''bio'', json_opt JStr (bio u)),
      (''contact'', JStr (contact u)),
      (''overall_rating'', json_opt JFloat (overall_rating u)),
      (''reviews'', JList (map Review_serialize (reviews u))),
      (''host'', JBool (host u)),
      (''owner'', JBool (owner u)),
      (''categories_h'', JList (map (\<lambda>c. JStr (description c)) (categories_h u))),
      (''categories_o'', JList (map (\<lambda>c. JStr (description c)) (categories_o u))),
      (''available'', JBool (available u))]"

definition renew_session :: "user \<Rightarrow> datetime \<Rightarrow> string \<Rightarrow> string \<Rightarrow> user" where
  "renew_session u now tok1 tok2 =
     u\<lparr>session_token := tok1,
       session_expiration := now + timedelta_days 1,
       update_token := tok2\<rparr>"

definition verify_session_token :: "user \<Rightarrow> string \<Rightarrow> datetime \<Rightarrow> bool" where
  "verify_session_token u tok now = (tok = session_token u \<and> now < session_expiration u)"

definition verify_update_token :: "user \<Rightarrow> string \<Rightarrow> bool" where
  "verify_update_token u tok = (tok = update_token u)"

section \<open>Passwords: encoding and the bcrypt library\<close>

text \<open>
  What \<^verbatim>\<open>json.loads\<close> gives for the password key of a request body, when it is not
  \<^verbatim>\<open>None\<close>: a \<^verbatim>\<open>str\<close>, as the list of its code points, or a value of another type (a
  number, a boolean, a list, an object), which has no method \<^verbatim>\<open>encode\<close>.
\<close>

datatype body_value = BStr "nat list" | BOther

text \<open>
  \<^verbatim>\<open>str.encode("utf8")\<close>: one to four bytes for each code point, and
  \<^verbatim>\<open>UnicodeEncodeError\<close> at a surrogate (\<^verbatim>\<open>U+D800\<close> to \<^verbatim>\<open>U+DFFF\<close>), which a \<^verbatim>\<open>str\<close>
  may hold (\<^verbatim>\<open>json.loads\<close> accepts a lone surrogate escape) and UTF-8 cannot encode.
  A \<^verbatim>\<open>str\<close> has no code point above \<^verbatim>\<open>U+10FFFF\<close>.
\<close>

definition is_surrogate :: "nat \<Rightarrow> bool" where
  "is_surrogate c \<longleftrightarrow> 55296 \<le> c \<and> c \<le> 57343"

definition utf8_char :: "nat \<Rightarrow> string" where
  "utf8_char c =
     (if c < 128 then [char_of c]
      else if c < 2048 then [char_of (192 + c div 64), char_of (128 + c mod 64)]
      else if c < 65536 then
        [char_of (224 + c div 4096), char_of (128 + c div 64 mod 64), char_of (128 + c mod 64)]
      else
        [char_of (240 + c div 262144), char_of (128 + c div 4096 mod 64),
         char_of (128 + c div 64 mod 64), char_of (128 + c mod 64)])"

fun encode_utf8 :: "nat list \<Rightarrow> py_error + string" where
  "encode_utf8 [] = Inr []"
| "encode_utf8 (c # cs) =
     (if is_surrogate c then Inl UnicodeEncodeError
      else (case encode_utf8 cs of
              Inl e \<Rightarrow> Inl e
            | Inr bs \<Rightarrow> Inr (utf8_char c @ bs)))"

text \<open>\<^verbatim>\<open>value.encode("utf8")\<close> on a value of the body: \<^verbatim>\<open>AttributeError\<close> when it is
  no \<^verbatim>\<open>str\<close>.\<close>

definition encode :: "body_value \<Rightarrow> py_error + string" where
  "encode v = (case v of BOther \<Rightarrow> Inl AttributeError | BStr cps \<Rightarrow> encode_utf8 cps)"

text \<open>
  \<^verbatim>\<open>bcrypt\<close> is a third-party library, not part of the repository. Its two functions that
  the code calls are parameters, with nothing assumed about them: \<open>hashpw B password salt\<close>
  and \<open>checkpw B password hashed_password\<close> are what \<^verbatim>\<open>bcrypt.hashpw\<close> and
  \<^verbatim>\<open>bcrypt.checkpw\<close> give on these bytes, a result or the exception they raise.
\<close>

record bcrypt_lib =
  hashpw :: "string \<Rightarrow> string \<Rightarrow> py_error + string"
  checkpw :: "string \<Rightarrow> string \<Rightarrow> py_error + bool"

definition verify_password :: "bcrypt_lib \<Rightarrow> user \<Rightarrow> body_value \<Rightarrow> py_error + bool" where
  "verify_password B u password =
     (case encode password of
        Inl e \<Rightarrow> Inl e
      | Inr password_bytes \<Rightarrow> checkpw B password_bytes (password_digest u))"

text \<open>
  \<^verbatim>\<open>User.__init__\<close>. \<^verbatim>\<open>kwargs.get\<close> gives \<^verbatim>\<open>None\<close> for \<^verbatim>\<open>bio\<close> when absent; the other
  arguments are present at the only call. The salt is what \<^verbatim>\<open>bcrypt.gensalt(rounds=13)\<close>
  returned, \<open>tok1\<close> and \<open>tok2\<close> what the two calls of \<^verbatim>\<open>_urlsafe_base_64\<close> returned
  (the SHA-1 hex digest of 64 bytes of \<^verbatim>\<open>os.urandom\<close>): random values are arguments of
  the operation that draws them. The primary key is assigned by the database when the row
  is inserted; the constructor is given it as \<open>new_id\<close>.
\<close>

record user_kwargs =
  kw_name :: string
  kw_username :: string
  kw_bio :: "string option"
  kw_contact :: string
  kw_host :: bool
  kw_owner :: bool
  kw_available :: bool
  kw_email :: string
  kw_password :: body_value

definition User_init ::
  "bcrypt_lib \<Rightarrow> nat \<Rightarrow> user_kwargs \<Rightarrow> string \<Rightarrow> datetime \<Rightarrow> string \<Rightarrow> string \<Rightarrow> py_error + user" where
  "User_init B new_id kw salt now tok1 tok2 =
     (case encode (kw_password kw) of
        Inl e \<Rightarrow> Inl e
      | Inr password_bytes \<Rightarrow>
          (case hashpw B password_bytes salt of
             Inl e \<Rightarrow> Inl e
           | Inr digest \<Rightarrow>
               Inr (renew_session
                 \<lparr>user_id = new_id, name = kw_name kw, username = kw_username kw,
                  bio = kw_bio kw, contact = kw_contact kw, overall_rating = None,
                  reviews = [], host = kw_host kw, owner = kw_owner kw,
                  categories_h = [], categories_o = [], available = kw_available kw,
                  email = kw_email kw, password_digest = digest,
                  session_token = [], session_expiration = 0, update_token = []\<rparr>
                 now tok1 tok2)))"

section \<open>Request helpers (app.py)\<close>

text \<open>A response is the JSON value given to \<^verbatim>\<open>json.dumps\<close> and the status code
  (200 where the view returns the text alone).\<close>

type_synonym response = "json \<times> nat"

text \<open>\<^verbatim>\<open>str.replace("Bearer", "")\<close>: every occurrence, left to right.\<close>

fun remove_Bearer :: "string \<Rightarrow> string" where
  "remove_Bearer [] = []"
| "remove_Bearer (c # cs) =
     (if take 6 (c # cs) = ''Bearer'' then remove_Bearer (drop 5 cs)
      else c # remove_Bearer cs)"

text \<open>\<^verbatim>\<open>str.isspace\<close> on the characters a header can hold (code points below 256).\<close>

definition isspace :: "char \<Rightarrow> bool" where
  "isspace c = ((of_char c :: nat) \<in> set [9, 10, 11, 12, 13, 28, 29, 30, 31, 32, 133, 160])"

definition strip :: "string \<Rightarrow> string" where
  "strip s = rev (dropWhile isspace (rev (dropWhile isspace s)))"

text \<open>\<^verbatim>\<open>extract_token\<close>: \<open>Inl\<close> is the pair \<^verbatim>\<open>(False, error)\<close>, \<open>Inr\<close> the pair
  \<^verbatim>\<open>(True, bearer_token)\<close>. The argument is the \<^verbatim>\<open>Authorization\<close> header, if any.\<close>

definition extract_token :: "string option \<Rightarrow> json + string" where
  "extract_token auth_header =
     (case auth_header of
        None \<Rightarrow> Inl (JDict [(''error'', JStr ''Missing auth header'')])
      | Some h \<Rightarrow>
          (let bearer_token = strip (remove_Bearer h)
           in if bearer_token = [] then Inl (JDict [(''error'', JStr ''Invalid auth header'')])
              else Inr bearer_token))"

section \<open>The table of users and \<^verbatim>\<open>users_dao\<close>\<close>

text \<open>
  The \<^verbatim>\<open>user\<close> table is the list of its rows. \<^verbatim>\<open>db.session.commit()\<close> writes the
  changed object over the row with its primary key, and fails with \<^verbatim>\<open>IntegrityError\<close>
  when the result breaks a constraint that db.py declares: the primary key and the
  \<^verbatim>\<open>unique=True\<close> columns \<^verbatim>\<open>email\<close>, \<^verbatim>\<open>session_token\<close> and \<^verbatim>\<open>update_token\<close>.
\<close>

type_synonym store = "user list"

definition constraints_ok :: "store \<Rightarrow> bool" where
  "constraints_ok s \<longleftrightarrow>
     distinct (map user_id s) \<and> distinct (map email s) \<and>
     distinct (map session_token s) \<and> distinct (map update_token s)"

definition commit_update :: "user \<Rightarrow> store \<Rightarrow> py_error + store" where
  "commit_update u s =
     (let s' = map (\<lambda>r. if user_id r = user_id u then u else r) s
      in if constraints_ok s' then Inr s' else Inl IntegrityError)"

definition commit_add :: "user \<Rightarrow> store \<Rightarrow> py_error + store" where
  "commit_add u s =
     (let s' = s @ [u]
      in if constraints_ok s' then Inr s' else Inl IntegrityError)"

definition next_id :: "store \<Rightarrow> nat" where
  "next_id s = Suc (fold max (map user_id s) 0)"

text \<open>
  The module \<^verbatim>\<open>users_dao\<close> is called by app.py and is missing from the sources; its six
  functions are modelled from the spec, each below.
\<close>

text \<open>
  Modelled from the spec: \<^verbatim>\<open>users_dao.get_user_by_email\<close>, missing from the sources. It
  is the store contract's \<^verbatim>\<open>find_by_email\<close>: the record with this email, or nothing.
\<close>

definition get_user_by_email :: "store \<Rightarrow> string \<Rightarrow> user option" where
  "get_user_by_email s e = find (\<lambda>u. email u = e) s"

text \<open>
  Modelled from the spec: \<^verbatim>\<open>users_dao.get_user_by_session_token\<close>, missing from the
  sources. It is the store contract's \<^verbatim>\<open>find_by_session_token\<close>: the record whose current
  session token matches exactly, or nothing.
\<close>

definition get_user_by_session_token :: "store \<Rightarrow> string \<Rightarrow> user option" where
  "get_user_by_session_token s tok = find (\<lambda>u. session_token u = tok) s"

text \<open>
  Modelled from the spec: \<^verbatim>\<open>users_dao.get_user_by_update_token\<close>, missing from the
  sources. It is the store contract's \<^verbatim>\<open>find_by_update_token\<close>: the record whose current
  update token matches exactly, or nothing.
\<close>

definition get_user_by_update_token :: "store \<Rightarrow> string \<Rightarrow> user option" where
  "get_user_by_update_token s tok = find (\<lambda>u. update_token u = tok) s"

text \<open>
  Modelled from the spec: \<^verbatim>\<open>users_dao.create_user\<close>, missing from the sources. It fails
  (\<^verbatim>\<open>created = False\<close>) if the email is already present; otherwise it builds the
  \<^verbatim>\<open>User\<close> (which hashes the password and issues the first token triple) and persists it.
\<close>

definition create_user ::
  "bcrypt_lib \<Rightarrow> store \<Rightarrow> user_kwargs \<Rightarrow> string \<Rightarrow> datetime \<Rightarrow> string \<Rightarrow> string
     \<Rightarrow> py_error + ((bool \<times> user option) \<times> store)" where
  "create_user B s kw salt now tok1 tok2 =
     (case get_user_by_email s (kw_email kw) of
        Some existing \<Rightarrow> Inr ((False, Some existing), s)
      | None \<Rightarrow>
          (case User_init B (next_id s) kw salt now tok1 tok2 of
             Inl e \<Rightarrow> Inl e
           | Inr u \<Rightarrow>
               (case commit_add u s of
                  Inl e \<Rightarrow> Inl e
                | Inr s' \<Rightarrow> Inr ((True, Some u), s'))))"

text \<open>
  Modelled from the spec: \<^verbatim>\<open>users_dao.verify_credentials\<close>, missing from the sources. It
  looks the identity up by email and fails if there is none or if \<^verbatim>\<open>verify_password\<close>
  fails; it changes nothing.
\<close>

definition verify_credentials ::
  "bcrypt_lib \<Rightarrow> store \<Rightarrow> string \<Rightarrow> body_value \<Rightarrow> py_error + (bool \<times> user option)" where
  "verify_credentials B s e password =
     (case get_user_by_email s e of
        None \<Rightarrow> Inr (False, None)
      | Some u \<Rightarrow>
          (case verify_password B u password of
             Inl err \<Rightarrow> Inl err
           | Inr ok \<Rightarrow> Inr (ok, Some u)))"

text \<open>
  Modelled from the spec: \<^verbatim>\<open>users_dao.renew_session\<close>, missing from the sources. It looks
  the identity up by exact match on \<^verbatim>\<open>update_token\<close> and gives nothing if there is no
  match; otherwise it calls \<^verbatim>\<open>User.renew_session\<close> on the record and persists it.
\<close>

definition users_dao_renew_session ::
  "store \<Rightarrow> string \<Rightarrow> datetime \<Rightarrow> string \<Rightarrow> string \<Rightarrow> py_error + (user option \<times> store)" where
  "users_dao_renew_session s tok now tok1 tok2 =
     (case get_user_by_update_token s tok of
        None \<Rightarrow> Inr (None, s)
      | Some u \<Rightarrow>
          (let u' = renew_session u now tok1 tok2
           in case commit_update u' s of
                Inl e \<Rightarrow> Inl e
              | Inr s' \<Rightarrow> Inr (Some u', s')))"

section \<open>The authentication routes (app.py)\<close>

text \<open>
  Each view takes the table and what it reads from the request, the clock and the random
  source, and gives its response and the table it leaves, or the exception that escapes
  it. A field of the JSON body that is absent (\<^verbatim>\<open>body.get\<close> gives \<^verbatim>\<open>None\<close>) is \<open>None\<close>.
\<close>

record register_body =
  b_email :: "string option"
  b_password :: "body_value option"
  b_name :: "string option"
  b_username :: "string option"
  b_bio :: "string option"
  b_contact :: "string option"
  b_host :: "bool option"
  b_owner :: "bool option"
  b_available :: "bool option"

definition get_default :: "'a option \<Rightarrow> 'a \<Rightarrow> 'a" where
  "get_default x d = (case x of None \<Rightarrow> d | Some v \<Rightarrow> v)"

definition register_account ::
  "bcrypt_lib \<Rightarrow> store \<Rightarrow> register_body \<Rightarrow> string \<Rightarrow> datetime \<Rightarrow> string \<Rightarrow> string
     \<Rightarrow> py_error + (response \<times> store)" where
  "register_account B s body salt now tok1 tok2 =
     (case (b_email body, b_password body) of
        (Some e, Some password) \<Rightarrow>
          (case (b_name body, b_username body, b_contact body) of
             (Some n, Some un, Some c) \<Rightarrow>
               (case create_user B s
                       \<lparr>kw_name = n, kw_username = un, kw_bio = b_bio body, kw_contact = c,
                        kw_host = get_default (b_host body) False,
                        kw_owner = get_default (b_owner body) False,
                        kw_available = get_default (b_available body) False,
                        kw_email = e, kw_password = password\<rparr>
                       salt now tok1 tok2 of
                  Inl err \<Rightarrow> Inl err
                | Inr ((True, Some u), s') \<Rightarrow>
                    Inr ((JDict
                           [(''user'', serialize u),
                            (''session_token'', JStr (session_token u)),
                            (''session_expiration'', JStrOfDatetime (session_expiration u)),
                            (''update_token'', JStr (update_token u))], 201), s')
                | Inr (_, s') \<Rightarrow>
                    Inr ((JDict [(''error'', JStr ''Incorrect email or password'')], 400), s'))
           | _ \<Rightarrow> Inr ((JDict [(''error'', JStr ''Missing input'')], 400), s))
      | _ \<Rightarrow> Inr ((JDict [(''error'', JStr ''Invalid email or password'')], 400), s))"

definition login ::
  "bcrypt_lib \<Rightarrow> store \<Rightarrow> string option \<Rightarrow> body_value option
     \<Rightarrow> py_error + (response \<times> store)" where
  "login B s body_email body_password =
     (case (body_email, body_password) of
        (Some e, Some password) \<Rightarrow>
          (case verify_credentials B s e password of
             Inl err \<Rightarrow> Inl err
           | Inr (True, Some u) \<Rightarrow>
               Inr ((JDict
                      [(''session_token'', JStr (session_token u)),
                       (''session_expiration'', JStrOfDatetime (session_expiration u)),
                       (''update_token'', JStr (update_token u))], 200), s)
           | Inr _ \<Rightarrow> Inr ((JDict [(''error'', JStr ''Incorrect email or password'')], 400), s))
      | _ \<Rightarrow> Inr ((JDict [(''error'', JStr ''Invalid email or password'')], 400), s))"

definition update_session ::
  "store \<Rightarrow> string option \<Rightarrow> datetime \<Rightarrow> string \<Rightarrow> string \<Rightarrow> py_error + (response \<times> store)" where
  "update_session s auth_header now tok1 tok2 =
     (case extract_token auth_header of
        Inl msg \<Rightarrow> Inr ((msg, 200), s)
      | Inr update_tok \<Rightarrow>
          (case users_dao_renew_session s update_tok now tok1 tok2 of
             Inl err \<Rightarrow> Inl err
           | Inr (None, s') \<Rightarrow> Inr ((JDict [(''error'', JStr ''Invalid update token'')], 200), s')
           | Inr (Some u, s') \<Rightarrow>
               Inr ((JDict
                      [(''session_token'', JStr (session_token u)),
                       (''session_expiration'', JStrOfDatetime (session_expiration u)),
                       (''update_token'', JStr (update_token u))], 200), s')))"

text \<open>\<^verbatim>\<open>secret_message\<close> reads the table and the clock and changes nothing.\<close>

definition secret_message :: "store \<Rightarrow> string option \<Rightarrow> datetime \<Rightarrow> response" where
  "secret_message s auth_header now =
     (case extract_token auth_header of
        Inl msg \<Rightarrow> (msg, 200)
      | Inr session_tok \<Rightarrow>
          (case get_user_by_session_token s session_tok of
             None \<Rightarrow> (JDict [(''error'', JStr ''Invalid session token'')], 200)
           | Some u \<Rightarrow>
               if verify_session_token u session_tok now
               then (JDict [(''error'', JStr ''Invalid session token'')], 200)
               else (JDict [(''message'', JStr ''Wow we implemented session token!!'')], 200)))"

text \<open>\<^verbatim>\<open>logout\<close> reads the clock twice: \<open>now1\<close> inside \<^verbatim>\<open>verify_session_token\<close>,
  \<open>now2\<close> for the new expiration.\<close>

definition logout ::
  "store \<Rightarrow> string option \<Rightarrow> datetime \<Rightarrow> datetime \<Rightarrow> py_error + (response \<times> store)" where
  "logout s auth_header now1 now2 =
     (case extract_token auth_header of
        Inl msg \<Rightarrow> Inr ((msg, 200), s)
      | Inr session_tok \<Rightarrow>
          (case get_user_by_session_token s session_tok of
             None \<Rightarrow> Inr ((JDict [(''error'', JStr ''Invalid session token'')], 400), s)
           | Some u \<Rightarrow>
               if \<not> verify_session_token u session_tok now1
               then Inr ((JDict [(''error'', JStr ''Invalid session token'')], 400), s)
               else
                 (case commit_update (u\<lparr>session_expiration := now2\<rparr>) s of
                    Inl err \<Rightarrow> Inl err
                  | Inr s' \<Rightarrow>
                      Inr ((JDict [(''message'', JStr ''User has successfully logged out'')], 200),
                           s'))))"

section \<open>Concrete inputs\<close>

text \<open>
  The \<^verbatim>\<open>str\<close> whose characters are those of an ASCII literal, and a password of the
  examples.
\<close>

definition ascii :: "string \<Rightarrow> nat list" where
  "ascii s = map of_char s"

definition pw_example :: body_value where
  "pw_example = BStr (ascii ''pw123456'')"

text \<open>
  An instance of the library interface, on which the examples run; the theorems are about
  every instance. A salt or digest is taken when it begins with \<^verbatim>\<open>$2b$\<close> and has the 29
  bytes of a bcrypt salt, a password when it has at most 72 bytes; the digest keeps the 29
  bytes and appends the password. It is like bcrypt in that a digest carries its salt and
  in what it refuses, and in nothing else.
\<close>

definition bcrypt_example :: bcrypt_lib where
  "bcrypt_example =
     \<lparr>hashpw = (\<lambda>password salt.
        if take 4 salt = ''$2b$'' \<and> 29 \<le> length salt \<and> length password \<le> 72
        then Inr (take 29 salt @ password) else Inl ValueError),
      checkpw = (\<lambda>password hashed_password.
        if take 4 hashed_password = ''$2b$'' \<and> 29 \<le> length hashed_password \<and>
           length password \<le> 72
        then Inr (take 29 hashed_password @ password = hashed_password)
        else Inl ValueError)\<rparr>"

definition salt_example :: string where
  "salt_example = ''$2b$13$abcdefghijklmnopqrstuu''"

text \<open>Tokens of the form \<^verbatim>\<open>_urlsafe_base_64\<close> produces: 40 hexadecimal digits.\<close>

definition tokT1 :: string where "tokT1 = ''3f2a9c0d5e7b1a4c8d6e0f1b2a3c4d5e6f708192''"
definition tokU1 :: string where "tokU1 = ''a1b2c3d4e5f60718293a4b5c6d7e8f9004152637''"
definition tokT2 :: string where "tokT2 = ''5d41402abc4b2a76b9719d911017c592ae01f3c4''"
definition tokU2 :: string where "tokU2 = ''7c211433f02071597741e6ff5a8ea34789abbf43''"
definition tokT3 :: string where "tokT3 = ''0b9c2625dc21ef05f6ad4ddf47c5f203837aa32c''"
definition tokU3 :: string where "tokU3 = ''e4d909c290d0fb1ca068ffaddf22cbd0356a192b''"

definition alice_body :: register_body where
  "alice_body =
     \<lparr>b_email = Some ''a@x.com'', b_password = Some pw_example, b_name = Some ''Alice'',
      b_username = Some ''alice'', b_bio = None, b_contact = Some ''a@x.com'',
      b_host = Some True, b_owner = None, b_available = Some True\<rparr>"

definition alice :: user where
  "alice =
     \<lparr>user_id = 1, name = ''Alice'', username = ''alice'', bio = None, contact = ''a@x.com'',
      overall_rating = None, reviews = [], host = True, owner = False,
      categories_h = [], categories_o = [], available = True,
      email = ''a@x.com'', password_digest = ''$2b$13$abcdefghijklmnopqrstuupw123456'',
      session_token = tokT1, session_expiration = 100, update_token = tokU1\<rparr>"

definition bob :: user where
  "bob =
     \<lparr>user_id = 2, name = ''Bob'', username = ''bob'', bio = Some ''dogs'', contact = ''555'',
      overall_rating = None, reviews = [], host = False, owner = True,
      categories_h = [], categories_o = [], available = False,
      email = ''b@x.com'', password_digest = ''$2b$13$abcdefghijklmnopqrstuuhunter2'',
      session_token = tokT2, session_expiration = 200, update_token = tokU2\<rparr>"

section \<open>Auxiliary facts about encoding\<close>

lemma encode_utf8_iff:
  "encode_utf8 cps =
     (if list_ex is_surrogate cps then Inl UnicodeEncodeError
      else Inr (concat (map utf8_char cps)))"
  by (induction cps) auto

lemma utf8_char_ascii: "of_char c < (128::nat) \<Longrightarrow> utf8_char (of_char c) = [c]"
  by (simp add: utf8_char_def)

lemma encode_utf8_ascii:
  "\<forall>c\<in>set s. of_char c < (128::nat) \<Longrightarrow> encode_utf8 (ascii s) = Inr s"
  by (induction s) (auto simp: ascii_def utf8_char_ascii is_surrogate_def)

lemma ascii_no_surrogate:
  "\<forall>c\<in>set s. of_char c < (128::nat) \<Longrightarrow> \<not> list_ex is_surrogate (ascii s)"
  by (induction s) (auto simp: ascii_def is_surrogate_def)

lemma ascii_utf8:
  "\<forall>c\<in>set s. of_char c < (128::nat) \<Longrightarrow> concat (map utf8_char (ascii s)) = s"
  by (induction s) (auto simp: ascii_def utf8_char_ascii)

lemma encode_pw_example: "encode pw_example = Inr ''pw123456''"
  by (simp add: encode_def pw_example_def encode_utf8_ascii)

section \<open>Auxiliary facts about lookups and commits\<close>

lemma find_SomeD: "find P xs = Some x \<Longrightarrow> x \<in> set xs \<and> P x"
  by (induction xs) (auto split: if_splits)

lemma find_map_comp: "find P (map f xs) = map_option f (find (\<lambda>x. P (f x)) xs)"
  by (induction xs) auto

lemma map_user_id_replace:
  "user_id u' = user_id u \<Longrightarrow>
   map user_id (map (\<lambda>r. if user_id r = user_id u then u' else r) s) = map user_id s"
  by (induction s) auto

lemma replace_row_list_update:
  assumes d: "distinct (map user_id s)" and i: "i < length s"
  shows "map (\<lambda>r. if user_id r = user_id (s ! i) then u' else r) s = s[i := u']"
proof (rule nth_equalityI)
  show "length (map (\<lambda>r. if user_id r = user_id (s ! i) then u' else r) s) = length (s[i := u'])"
    by simp
next
  fix j assume "j < length (map (\<lambda>r. if user_id r = user_id (s ! i) then u' else r) s)"
  then have j: "j < length s" by simp
  show "map (\<lambda>r. if user_id r = user_id (s ! i) then u' else r) s ! j = s[i := u'] ! j"
  proof (cases "j = i")
    case True
    with i show ?thesis by simp
  next
    case False
    from d i j False have "map user_id s ! j \<noteq> map user_id s ! i"
      using nth_eq_iff_index_eq [of "map user_id s" j i] by simp
    with i j have "user_id (s ! j) \<noteq> user_id (s ! i)" by simp
    with j False show ?thesis by simp
  qed
qed

lemma commit_update_row:
  assumes c: "commit_update u' s = Inr s'" and u: "u \<in> set s" and id: "user_id u' = user_id u"
  shows "\<exists>i<length s. s ! i = u \<and> s' = s[i := u'] \<and> constraints_ok s'"
proof -
  let ?h = "\<lambda>r. if user_id r = user_id u' then u' else r"
  from c have s': "s' = map ?h s" and ok: "constraints_ok s'"
    by (auto simp: commit_update_def Let_def split: if_splits)
  from ok have "distinct (map user_id s')" by (simp add: constraints_ok_def)
  moreover have "map user_id s' = map user_id s"
    unfolding s' by (rule map_user_id_replace) simp
  ultimately have d: "distinct (map user_id s)" by simp
  from u obtain i where i: "i < length s" "s ! i = u"
    by (auto simp: in_set_conv_nth)
  from replace_row_list_update [OF d i(1), of u'] i(2) id s'
  have "s' = s[i := u']" by simp
  with i ok show ?thesis by blast
qed

lemma extract_token_Inl:
  "extract_token h = Inl msg \<Longrightarrow>
     msg = JDict [(''error'', JStr ''Missing auth header'')] \<or>
     msg = JDict [(''error'', JStr ''Invalid auth header'')]"
  by (auto simp: extract_token_def Let_def split: option.splits if_splits)

lemma map_list_update_same:
  "i < length s \<Longrightarrow> f v = f (s ! i) \<Longrightarrow> map f (s[i := v]) = map f s"
  by (simp add: map_update list_update_same_conv)

lemma constraints_ok_list_update:
  assumes ok: "constraints_ok s" and i: "i < length s"
    and "user_id v = user_id (s ! i)" and "email v = email (s ! i)"
    and "session_token v = session_token (s ! i)" and "update_token v = update_token (s ! i)"
  shows "constraints_ok (s[i := v])"
  using assms by (simp add: constraints_ok_def map_list_update_same)

lemma commit_update_expiration:
  assumes ok: "constraints_ok s" and i: "i < length s"
  shows "commit_update ((s ! i)\<lparr>session_expiration := x\<rparr>) s =
           Inr (s[i := (s ! i)\<lparr>session_expiration := x\<rparr>])"
proof -
  from ok have d: "distinct (map user_id s)" by (simp add: constraints_ok_def)
  have "map (\<lambda>r. if user_id r = user_id ((s ! i)\<lparr>session_expiration := x\<rparr>)
                  then (s ! i)\<lparr>session_expiration := x\<rparr> else r) s =
        s[i := (s ! i)\<lparr>session_expiration := x\<rparr>]"
    using replace_row_list_update [OF d i, of "(s ! i)\<lparr>session_expiration := x\<rparr>"] by simp
  moreover have "constraints_ok (s[i := (s ! i)\<lparr>session_expiration := x\<rparr>])"
    using ok i by (rule constraints_ok_list_update) simp_all
  ultimately show ?thesis by (simp add: commit_update_def)
qed

lemma find_list_update_first:
  assumes d: "distinct (map user_id s)" and i: "i < length s"
    and f: "find P s = Some (s ! i)" and v: "P v"
  shows "find P (s[i := v]) = Some v"
proof -
  from f obtain k where k: "k < length s" "P (s ! k)" "s ! i = s ! k" "\<forall>j<k. \<not> P (s ! j)"
    by (auto simp: find_Some_iff)
  from d i k(1,3) have "i = k"
    using nth_eq_iff_index_eq [of "map user_id s" i k] by simp
  with i v k(4) show ?thesis
    by (auto simp: find_Some_iff intro!: exI [of _ i])
qed

lemma commit_update_distinct_ids:
  assumes "commit_update u' s = Inr s'"
  shows "distinct (map user_id s)"
proof -
  let ?h = "\<lambda>r. if user_id r = user_id u' then u' else r"
  from assms have s': "s' = map ?h s" and ok: "constraints_ok s'"
    by (auto simp: commit_update_def Let_def split: if_splits)
  have "map user_id s' = map user_id s"
    unfolding s' by (rule map_user_id_replace) simp
  with ok show ?thesis by (simp add: constraints_ok_def)
qed

lemmas example_defs = alice_def bob_def tokT1_def tokT2_def tokT3_def tokU1_def tokU2_def tokU3_def

lemma update_session_success:
  assumes "update_session s h now tok1 tok2 =
      Inr ((JDict [(''session_token'', a), (''session_expiration'', b), (''update_token'', c)],
            200), s')"
  shows "\<exists>tok u. extract_token h = Inr tok \<and> get_user_by_update_token s tok = Some u \<and>
           commit_update (renew_session u now tok1 tok2) s = Inr s' \<and>
           a = JStr tok1 \<and> b = JStrOfDatetime (now + timedelta_days 1) \<and> c = JStr tok2"
  using assms
  by (auto simp: update_session_def users_dao_renew_session_def Let_def renew_session_def
      split: sum.splits option.splits prod.splits dest: extract_token_Inl)

lemma commit_update_expiration_mem:
  assumes "constraints_ok s" and "u \<in> set s"
  shows "\<exists>s'. commit_update (u\<lparr>session_expiration := x\<rparr>) s = Inr s'"
proof -
  from assms(2) obtain i where "i < length s" "s ! i = u"
    by (auto simp: in_set_conv_nth)
  with commit_update_expiration [OF assms(1), of i x] show ?thesis by auto
qed

lemma logout_response_cases:
  assumes "constraints_ok s"
  shows "map_sum id fst (logout s h now1 now2) =
     Inr (case extract_token h of
            Inl msg \<Rightarrow> (msg, 200)
          | Inr tok \<Rightarrow>
              (case get_user_by_session_token s tok of
                 None \<Rightarrow> (JDict [(''error'', JStr ''Invalid session token'')], 400)
               | Some u \<Rightarrow>
                   if verify_session_token u tok now1
                   then (JDict [(''message'', JStr ''User has successfully logged out'')], 200)
                   else (JDict [(''error'', JStr ''Invalid session token'')], 400)))"
proof (cases "extract_token h")
  case (Inl msg)
  then show ?thesis by (simp add: logout_def)
next
  case (Inr tok)
  show ?thesis
  proof (cases "get_user_by_session_token s tok")
    case None
    with Inr show ?thesis by (simp add: logout_def)
  next
    case (Some u)
    then have "u \<in> set s"
      by (auto simp: get_user_by_session_token_def dest: find_SomeD)
    from commit_update_expiration_mem [OF assms this, of now2]
    obtain s' where "commit_update (u\<lparr>session_expiration := now2\<rparr>) s = Inr s'" ..
    with Inr Some show ?thesis by (simp add: logout_def)
  qed
qed

lemma get_user_by_session_token_retoken:
  "get_user_by_session_token (map (\<lambda>r. r\<lparr>update_token := g r\<rparr>) s) tok =
   map_option (\<lambda>r. r\<lparr>update_token := g r\<rparr>) (get_user_by_session_token s tok)"
  by (simp add: get_user_by_session_token_def find_map_comp)

section \<open>Registration\<close>

text \<open>
  A registration that succeeds adds one row, which holds the two generated tokens and
  expires a day later, and returns both tokens. The record \<open>alice\<close> of the examples is what
  registering \<open>alice_body\<close> on the empty table creates, but for its expiration.
\<close>

lemma register_account_created:
  assumes "register_account B s body salt now tok1 tok2 = Inr ((j, 201), s')"
  shows "\<exists>u. s' = s @ [u] \<and> constraints_ok s' \<and>
           session_token u = tok1 \<and> update_token u = tok2 \<and>
           session_expiration u = now + timedelta_days 1 \<and>
           j = JDict [(''user'', serialize u), (''session_token'', JStr tok1),
                      (''session_expiration'', JStrOfDatetime (now + timedelta_days 1)),
                      (''update_token'', JStr tok2)]"
  using assms
  by (auto simp: register_account_def create_user_def User_init_def commit_add_def Let_def
      renew_session_def
      split: option.splits sum.splits prod.splits bool.splits if_splits)

lemma register_account_example:
  "register_account bcrypt_example [] alice_body salt_example 0 tokT1 tokU1 =
     Inr ((JDict [(''user'', serialize alice), (''session_token'', JStr tokT1),
                  (''session_expiration'', JStrOfDatetime 86400000000),
                  (''update_token'', JStr tokU1)], 201),
          [alice\<lparr>session_expiration := 86400000000\<rparr>])"
  by (simp add: register_account_def create_user_def User_init_def commit_add_def Let_def
      renew_session_def get_user_by_email_def encode_pw_example bcrypt_example_def salt_example_def
      alice_body_def get_default_def next_id_def constraints_ok_def timedelta_days_def
      serialize_def alice_def)

section \<open>Session verification\<close>

lemma verify_session_token_boundary:
  "verify_session_token u tok now \<longleftrightarrow> tok = session_token u \<and> now < session_expiration u"
  by (simp add: verify_session_token_def)

lemma secret_message_accepts_iff:
  assumes "extract_token h = Inr tok"
  shows "secret_message s h now =
           (JDict [(''message'', JStr ''Wow we implemented session token!!'')], 200)
     \<longleftrightarrow> (\<exists>u. get_user_by_session_token s tok = Some u \<and> \<not> verify_session_token u tok now)"
  using assms by (auto simp: secret_message_def split: option.splits)

text \<open>
  Claim C1: session verification accepts a token exactly when a record holds it as its
  current \<^verbatim>\<open>session_token\<close> and the clock is strictly before that record's
  \<^verbatim>\<open>session_expiration\<close>, and rejects it, in one and the same way, in every other case.
  \<^verbatim>\<open>User.verify_session_token\<close> is this test (\<open>verify_session_token_boundary\<close>), but the
  view \<^verbatim>\<open>secret_message\<close> rejects when the test succeeds: it lacks the \<^verbatim>\<open>not\<close> that
  \<^verbatim>\<open>logout\<close> has. With Alice's session valid until 100, her token is refused at time 50
  and accepted at time 100, when it has expired.
\<close>

theorem secret_message_inverts_session_check:
  "get_user_by_session_token [alice, bob] tokT1 = Some alice \<and>
   verify_session_token alice tokT1 50 \<and>
   secret_message [alice, bob] (Some (''Bearer '' @ tokT1)) 50 =
     (JDict [(''error'', JStr ''Invalid session token'')], 200) \<and>
   \<not> verify_session_token alice tokT1 100 \<and>
   secret_message [alice, bob] (Some (''Bearer '' @ tokT1)) 100 =
     (JDict [(''message'', JStr ''Wow we implemented session token!!'')], 200)"
  by (simp add: secret_message_def extract_token_def strip_def isspace_def alice_def bob_def tokT1_def tokT2_def tokU1_def tokU2_def
      get_user_by_session_token_def verify_session_token_def)

section \<open>Serialization\<close>

text \<open>
  Claim C10: two \<^verbatim>\<open>User\<close> records that agree on the profile fields (id, name, username,
  bio, contact, overall_rating, reviews, host, owner, both category lists, available)
  have the same \<^verbatim>\<open>serialize()\<close> output, whatever their email, password digest, session
  token, session expiration and update token are.
\<close>

theorem serialize_ignores_credentials:
  assumes "user_id u1 = user_id u2" and "name u1 = name u2" and "username u1 = username u2"
    and "bio u1 = bio u2" and "contact u1 = contact u2"
    and "overall_rating u1 = overall_rating u2" and "reviews u1 = reviews u2"
    and "host u1 = host u2" and "owner u1 = owner u2"
    and "categories_h u1 = categories_h u2" and "categories_o u1 = categories_o u2"
    and "available u1 = available u2"
  shows "serialize u1 = serialize u2"
  using assms by (simp add: serialize_def)

theorem serialize_ignores_credentials_witness:
  "email bob \<noteq> email (bob\<lparr>email := ''c@x.com'', password_digest := ''other'',
          session_token := ''T9'', session_expiration := 7, update_token := ''U9''\<rparr>) \<and>
   serialize (bob\<lparr>email := ''c@x.com'', password_digest := ''other'',
          session_token := ''T9'', session_expiration := 7, update_token := ''U9''\<rparr>) =
   serialize bob"
  using serialize_ignores_credentials
    [of "bob\<lparr>email := ''c@x.com'', password_digest := ''other'',
          session_token := ''T9'', session_expiration := 7, update_token := ''U9''\<rparr>" bob]
  by (simp add: bob_def)

section \<open>Logout\<close>

text \<open>
  Claim C4: a successful \<^verbatim>\<open>logout\<close> of a valid, unexpired session sets the
  \<^verbatim>\<open>session_expiration\<close> of the record that holds the token to the clock's value and
  changes nothing else: one row of the table is replaced, by itself with the new
  expiration, so that its \<^verbatim>\<open>session_token\<close> and \<^verbatim>\<open>update_token\<close> are the previous ones.
\<close>

theorem logout_sets_expiration_only:
  assumes "logout s h now1 now2 =
    Inr ((JDict [(''message'', JStr ''User has successfully logged out'')], 200), s')"
  shows "\<exists>tok u i. extract_token h = Inr tok \<and> get_user_by_session_token s tok = Some u \<and>
           verify_session_token u tok now1 \<and> i < length s \<and> s ! i = u \<and>
           s' = s[i := u\<lparr>session_expiration := now2\<rparr>]"
proof -
  from assms obtain tok u where tok: "extract_token h = Inr tok"
    and u: "get_user_by_session_token s tok = Some u"
    and v: "verify_session_token u tok now1"
    and c: "commit_update (u\<lparr>session_expiration := now2\<rparr>) s = Inr s'"
    by (auto simp: logout_def split: sum.splits option.splits if_splits
        dest: extract_token_Inl)
  from u have "u \<in> set s"
    by (auto simp: get_user_by_session_token_def dest: find_SomeD)
  with c obtain i where "i < length s" "s ! i = u" "s' = s[i := u\<lparr>session_expiration := now2\<rparr>]"
    using commit_update_row [of "u\<lparr>session_expiration := now2\<rparr>" s s' u] by auto
  with tok u v show ?thesis by blast
qed

theorem logout_sets_expiration_only_witness:
  "logout [alice, bob] (Some (''Bearer '' @ tokT1)) 50 51 =
     Inr ((JDict [(''message'', JStr ''User has successfully logged out'')], 200),
          [alice\<lparr>session_expiration := 51\<rparr>, bob]) \<and>
   (\<exists>tok u i. extract_token (Some (''Bearer '' @ tokT1)) = Inr tok \<and>
      get_user_by_session_token [alice, bob] tok = Some u \<and>
      verify_session_token u tok 50 \<and> i < length [alice, bob] \<and> [alice, bob] ! i = u \<and>
      [alice\<lparr>session_expiration := 51\<rparr>, bob] = [alice, bob][i := u\<lparr>session_expiration := 51\<rparr>])"
proof -
  have run: "logout [alice, bob] (Some (''Bearer '' @ tokT1)) 50 51 =
     Inr ((JDict [(''message'', JStr ''User has successfully logged out'')], 200),
          [alice\<lparr>session_expiration := 51\<rparr>, bob])"
    by (simp add: logout_def extract_token_def strip_def isspace_def alice_def bob_def tokT1_def tokT2_def tokU1_def tokU2_def
        get_user_by_session_token_def verify_session_token_def commit_update_def
        constraints_ok_def)
  from logout_sets_expiration_only [OF run] run show ?thesis by blast
qed

text \<open>
  Claim C5: after a successful \<^verbatim>\<open>logout\<close> of a token, and with the table as the logout
  left it, the session test fails for that token at every later reading of the clock:
  the record is still found by the token, \<^verbatim>\<open>verify_session_token\<close> is false on it, and
  the guarded view \<^verbatim>\<open>logout\<close> answers that the session token is invalid.
\<close>

theorem logout_then_session_rejected:
  assumes out: "logout s h now1 now2 =
      Inr ((JDict [(''message'', JStr ''User has successfully logged out'')], 200), s')"
    and tok: "extract_token h = Inr tok"
    and later: "now2 \<le> later"
  shows "\<exists>u'. get_user_by_session_token s' tok = Some u' \<and>
           \<not> verify_session_token u' tok later \<and>
           logout s' h later later2 =
             Inr ((JDict [(''error'', JStr ''Invalid session token'')], 400), s')"
proof -
  from out tok obtain u where u: "get_user_by_session_token s tok = Some u"
    and v: "verify_session_token u tok now1"
    and c: "commit_update (u\<lparr>session_expiration := now2\<rparr>) s = Inr s'"
    by (auto simp: logout_def split: sum.splits option.splits if_splits)
  let ?u' = "u\<lparr>session_expiration := now2\<rparr>"
  from u have "u \<in> set s"
    by (auto simp: get_user_by_session_token_def dest: find_SomeD)
  with c obtain i where i: "i < length s" "s ! i = u" and s': "s' = s[i := ?u']"
    using commit_update_row [of ?u' s s' u] by auto
  from c have d: "distinct (map user_id s)" by (rule commit_update_distinct_ids)
  from v have "session_token ?u' = tok" by (simp add: verify_session_token_def)
  with d i u have found: "get_user_by_session_token s' tok = Some ?u'"
    unfolding s' get_user_by_session_token_def
    by (intro find_list_update_first) simp_all
  from later have rej: "\<not> verify_session_token ?u' tok later"
    by (simp add: verify_session_token_def)
  from tok found rej have
    "logout s' h later later2 =
       Inr ((JDict [(''error'', JStr ''Invalid session token'')], 400), s')"
    by (simp add: logout_def)
  with found rej show ?thesis by blast
qed

theorem logout_then_session_rejected_witness:
  "logout [alice, bob] (Some (''Bearer '' @ tokT1)) 50 51 =
     Inr ((JDict [(''message'', JStr ''User has successfully logged out'')], 200),
          [alice\<lparr>session_expiration := 51\<rparr>, bob]) \<and>
   extract_token (Some (''Bearer '' @ tokT1)) = Inr tokT1 \<and> (51::int) \<le> 51 \<and>
   (\<exists>u'. get_user_by_session_token [alice\<lparr>session_expiration := 51\<rparr>, bob] tokT1 = Some u' \<and>
      \<not> verify_session_token u' tokT1 51 \<and>
      logout [alice\<lparr>session_expiration := 51\<rparr>, bob] (Some (''Bearer '' @ tokT1)) 51 52 =
        Inr ((JDict [(''error'', JStr ''Invalid session token'')], 400),
             [alice\<lparr>session_expiration := 51\<rparr>, bob]))"
proof -
  have tok: "extract_token (Some (''Bearer '' @ tokT1)) = Inr tokT1"
    by (simp add: extract_token_def strip_def isspace_def tokT1_def)
  have run: "logout [alice, bob] (Some (''Bearer '' @ tokT1)) 50 51 =
     Inr ((JDict [(''message'', JStr ''User has successfully logged out'')], 200),
          [alice\<lparr>session_expiration := 51\<rparr>, bob])"
    by (simp add: logout_def extract_token_def strip_def isspace_def alice_def bob_def tokT1_def tokT2_def tokU1_def tokU2_def
        get_user_by_session_token_def verify_session_token_def commit_update_def
        constraints_ok_def)
  have later: "(51::int) \<le> 51" by simp
  from logout_then_session_rejected [OF run tok later, of 52] run tok show ?thesis by simp
qed

section \<open>Renewal\<close>

text \<open>
  What a renewal does whatever the token generator returns: a successful renewal at time
  \<open>now\<close> replaces one row of the table, the one found by the presented update token, by
  itself with \<^verbatim>\<open>session_token\<close> and \<^verbatim>\<open>update_token\<close> set to the two generated values and
  \<^verbatim>\<open>session_expiration\<close> set to \<open>now\<close> plus 24 hours, and returns these three values. The
  code compares the generated values with nothing: that they are new is a property of the
  random source alone.
\<close>

lemma update_session_replaces_row:
  assumes "update_session s h now tok1 tok2 =
      Inr ((JDict [(''session_token'', a), (''session_expiration'', b), (''update_token'', c)],
            200), s')"
  shows "\<exists>tok u i. extract_token h = Inr tok \<and> get_user_by_update_token s tok = Some u \<and>
           i < length s \<and> s ! i = u \<and>
           s' = s[i := u\<lparr>session_token := tok1,
                          session_expiration := now + 24 * 60 * 60 * 1000000,
                          update_token := tok2\<rparr>] \<and>
           a = JStr tok1 \<and> b = JStrOfDatetime (now + 24 * 60 * 60 * 1000000) \<and> c = JStr tok2"
proof -
  from update_session_success [OF assms] obtain tok u where
    tok: "extract_token h = Inr tok" and u: "get_user_by_update_token s tok = Some u" and
    c: "commit_update (renew_session u now tok1 tok2) s = Inr s'" and
    abc: "a = JStr tok1" "b = JStrOfDatetime (now + timedelta_days 1)" "c = JStr tok2"
    by blast
  from u have "u \<in> set s"
    by (auto simp: get_user_by_update_token_def dest: find_SomeD)
  with c obtain i where i: "i < length s" "s ! i = u" "s' = s[i := renew_session u now tok1 tok2]"
    using commit_update_row [of "renew_session u now tok1 tok2" s s' u]
    by (auto simp: renew_session_def)
  with tok u abc show ?thesis
    by (auto simp: renew_session_def timedelta_days_def)
qed

lemma update_session_example:
  "update_session [alice, bob] (Some (''Bearer '' @ tokU1)) 50 tokT3 tokU3 =
     Inr ((JDict [(''session_token'', JStr tokT3),
                  (''session_expiration'', JStrOfDatetime 86400000050),
                  (''update_token'', JStr tokU3)], 200),
          [alice\<lparr>session_token := tokT3, session_expiration := 86400000050,
                  update_token := tokU3\<rparr>, bob])"
  by (simp add: update_session_def users_dao_renew_session_def extract_token_def strip_def
      isspace_def get_user_by_update_token_def renew_session_def timedelta_days_def
      commit_update_def constraints_ok_def Let_def example_defs)

section \<open>Login\<close>

text \<open>
  Claim C6: a successful \<^verbatim>\<open>login\<close> returns the \<^verbatim>\<open>session_token\<close>, the
  \<^verbatim>\<open>session_expiration\<close> and the \<^verbatim>\<open>update_token\<close> that the record found by the email
  already holds, and leaves the table as it was: no token is issued and no expiration
  is extended.
\<close>

theorem login_returns_stored_triple:
  assumes "login B s body_email body_password =
      Inr ((JDict [(''session_token'', a), (''session_expiration'', b), (''update_token'', c)],
            200), s')"
  shows "s' = s \<and>
         (\<exists>e password u. body_email = Some e \<and> body_password = Some password \<and>
            get_user_by_email s e = Some u \<and> u \<in> set s \<and>
            verify_password B u password = Inr True \<and>
            a = JStr (session_token u) \<and> b = JStrOfDatetime (session_expiration u) \<and>
            c = JStr (update_token u))"
  using assms
  by (auto simp: login_def verify_credentials_def get_user_by_email_def
      split: option.splits sum.splits prod.splits bool.splits dest: find_SomeD)

theorem login_returns_stored_triple_witness:
  "login bcrypt_example [alice, bob] (Some ''a@x.com'') (Some pw_example) =
     Inr ((JDict [(''session_token'', JStr tokT1),
                  (''session_expiration'', JStrOfDatetime 100),
                  (''update_token'', JStr tokU1)], 200), [alice, bob]) \<and>
   (\<exists>e password u. Some ''a@x.com'' = Some e \<and> Some pw_example = Some password \<and>
      get_user_by_email [alice, bob] e = Some u \<and> u \<in> set [alice, bob] \<and>
      verify_password bcrypt_example u password = Inr True \<and>
      JStr tokT1 = JStr (session_token u) \<and>
      JStrOfDatetime 100 = JStrOfDatetime (session_expiration u) \<and>
      JStr tokU1 = JStr (update_token u))"
proof -
  have run: "login bcrypt_example [alice, bob] (Some ''a@x.com'') (Some pw_example) =
     Inr ((JDict [(''session_token'', JStr tokT1),
                  (''session_expiration'', JStrOfDatetime 100),
                  (''update_token'', JStr tokU1)], 200), [alice, bob])"
    by (simp add: login_def verify_credentials_def get_user_by_email_def verify_password_def
        encode_pw_example bcrypt_example_def alice_def bob_def)
  from login_returns_stored_triple [OF run] run show ?thesis by blast
qed

section \<open>Password verification\<close>

lemma verify_password_boolean_iff:
  "verify_password B u password = Inr b \<longleftrightarrow>
     (\<exists>cps. password = BStr cps \<and> \<not> list_ex is_surrogate cps \<and>
            checkpw B (concat (map utf8_char cps)) (password_digest u) = Inr b)"
  by (cases password)
     (auto simp: verify_password_def encode_def encode_utf8_iff split: sum.splits)

text \<open>
  Claim C7, as the code has it: \<^verbatim>\<open>verify_password\<close> encodes the password and gives the
  bytes and the stored digest to \<^verbatim>\<open>bcrypt.checkpw\<close>, with no handler around either step.
  A password that is no \<^verbatim>\<open>str\<close> raises \<^verbatim>\<open>AttributeError\<close>; a \<^verbatim>\<open>str\<close> that holds a
  surrogate raises \<^verbatim>\<open>UnicodeEncodeError\<close>; for every other password and every digest,
  well-formed or not, the outcome is that of \<^verbatim>\<open>checkpw\<close> on the UTF-8 bytes and the
  digest: the boolean it returns, or the exception it raises.
\<close>

theorem verify_password_outcome:
  "verify_password B u password =
     (case password of
        BOther \<Rightarrow> Inl AttributeError
      | BStr cps \<Rightarrow>
          if list_ex is_surrogate cps then Inl UnicodeEncodeError
          else checkpw B (concat (map utf8_char cps)) (password_digest u))"
  by (simp add: verify_password_def encode_def encode_utf8_iff split: body_value.splits)

theorem verify_password_outcome_witness:
  "verify_password bcrypt_example alice pw_example = Inr True \<and>
   verify_password bcrypt_example alice (BStr (ascii ''wrong'')) = Inr False \<and>
   verify_password bcrypt_example alice BOther = Inl AttributeError"
  using verify_password_outcome [of bcrypt_example alice pw_example]
    verify_password_outcome [of bcrypt_example alice "BStr (ascii ''wrong'')"]
    verify_password_outcome [of bcrypt_example alice BOther]
  by (simp add: bcrypt_example_def alice_def pw_example_def ascii_no_surrogate ascii_utf8)

text \<open>
  The claim as it was stated, that verification never raises, fails before the library is
  reached: the password of the one code point \<^verbatim>\<open>U+D800\<close>, which \<^verbatim>\<open>json.loads\<close> gives
  for a lone surrogate escape, cannot be encoded, whatever the digest is.
\<close>

theorem verify_password_raises_on_lone_surrogate:
  "verify_password bcrypt_example alice (BStr [55296]) = Inl UnicodeEncodeError"
  by (simp add: verify_password_def encode_def is_surrogate_def)

section \<open>Where the update token is returned\<close>

text \<open>
  Claim C9, as the code has it: registration, renewal and login return the record's
  \<^verbatim>\<open>update_token\<close>. The answers of the session check \<^verbatim>\<open>secret_message\<close> and of
  \<^verbatim>\<open>logout\<close>, and the public serialization of a user, do not depend on any update token:
  on two tables that satisfy the constraints and differ only in the update tokens of their
  rows, the two views answer alike, and \<^verbatim>\<open>serialize\<close> is the same whatever the update
  token is.
\<close>

theorem update_token_not_in_other_responses:
  assumes "constraints_ok s" and "constraints_ok (map (\<lambda>r. r\<lparr>update_token := g r\<rparr>) s)"
  shows "secret_message (map (\<lambda>r. r\<lparr>update_token := g r\<rparr>) s) h now = secret_message s h now \<and>
         map_sum id fst (logout (map (\<lambda>r. r\<lparr>update_token := g r\<rparr>) s) h now1 now2) =
           map_sum id fst (logout s h now1 now2) \<and>
         serialize (u\<lparr>update_token := x\<rparr>) = serialize u"
proof -
  have a: "secret_message (map (\<lambda>r. r\<lparr>update_token := g r\<rparr>) s) h now = secret_message s h now"
    by (cases "get_user_by_session_token s (projr (extract_token h))")
       (auto simp: secret_message_def get_user_by_session_token_retoken verify_session_token_def
         split: sum.splits option.splits)
  have b: "map_sum id fst (logout (map (\<lambda>r. r\<lparr>update_token := g r\<rparr>) s) h now1 now2) =
           map_sum id fst (logout s h now1 now2)"
    unfolding logout_response_cases [OF assms(1)] logout_response_cases [OF assms(2)]
    by (auto simp: get_user_by_session_token_retoken verify_session_token_def
         split: sum.splits option.splits)
  have c: "serialize (u\<lparr>update_token := x\<rparr>) = serialize u"
    by (simp add: serialize_def)
  from a b c show ?thesis by blast
qed

theorem update_token_not_in_other_responses_witness:
  "constraints_ok [alice, bob] \<and>
   constraints_ok (map (\<lambda>r. r\<lparr>update_token := tokU3 @ update_token r\<rparr>) [alice, bob]) \<and>
   secret_message (map (\<lambda>r. r\<lparr>update_token := tokU3 @ update_token r\<rparr>) [alice, bob])
       (Some (''Bearer '' @ tokT1)) 100 =
     secret_message [alice, bob] (Some (''Bearer '' @ tokT1)) 100 \<and>
   map_sum id fst
     (logout (map (\<lambda>r. r\<lparr>update_token := tokU3 @ update_token r\<rparr>) [alice, bob])
        (Some (''Bearer '' @ tokT1)) 50 51) =
     map_sum id fst (logout [alice, bob] (Some (''Bearer '' @ tokT1)) 50 51) \<and>
   serialize (alice\<lparr>update_token := tokU3\<rparr>) = serialize alice"
proof -
  have ok1: "constraints_ok [alice, bob]"
    by (simp add: constraints_ok_def example_defs)
  have ok2: "constraints_ok (map (\<lambda>r. r\<lparr>update_token := tokU3 @ update_token r\<rparr>) [alice, bob])"
    by (simp add: constraints_ok_def example_defs)
  from update_token_not_in_other_responses
    [OF ok1 ok2, where h = "Some (''Bearer '' @ tokT1)" and now = 100 and ?now1.0 = 50
      and ?now2.0 = 51 and u = alice and x = tokU3] ok1 ok2
  show ?thesis by blast
qed

text \<open>
  The claim as it was stated, that only registration and renewal return the update token,
  fails for \<^verbatim>\<open>login\<close>: its answer holds the record's update token.
\<close>

theorem login_exposes_update_token:
  "update_token alice = tokU1 \<and>
   login bcrypt_example [alice, bob] (Some ''a@x.com'') (Some pw_example) =
     Inr ((JDict [(''session_token'', JStr tokT1),
                  (''session_expiration'', JStrOfDatetime 100),
                  (''update_token'', JStr tokU1)], 200), [alice, bob])"
  by (simp add: login_def verify_credentials_def get_user_by_email_def verify_password_def
      encode_pw_example bcrypt_example_def alice_def bob_def)

end
